theory Spec2Isabelle
  imports Main "HOL-Library.Word"
begin

section \<open>The pixeldrain backend: data model\<close>

text \<open>
  The development follows \<^verbatim>\<open>backend/pixeldrain/pixeldrain.go\<close>. Go's \<^verbatim>\<open>int64\<close> is a
  64-bit word read in two's complement (\<open>sint\<close>); \<^verbatim>\<open>time.Time\<close> values are only copied by
  this file, so a time is an integer time stamp.
\<close>

type_synonym int64 = "64 word"
type_synonym Time = int

text \<open>
  Go's \<^verbatim>\<open>error\<close> values. \<open>errNotFound\<close> and \<open>errExists\<close> are the two sentinels of the API
  client that the file compares against; the \<open>Error...\<close> constructors are the sentinels of
  rclone's \<^verbatim>\<open>fs\<close> package, \<open>ErrUnsupported\<close> is \<^verbatim>\<open>hash.ErrUnsupported\<close>, \<open>ErrorOther\<close> is any
  other error value, and \<open>Errorf msg e\<close> is \<^verbatim>\<open>fmt.Errorf(msg + ": %w", e)\<close>.
\<close>

datatype error =
    errNotFound
  | errExists
  | ErrorDirNotFound
  | ErrorObjectNotFound
  | ErrorIsDir
  | ErrorCantMove
  | ErrorDirExists
  | ErrUnsupported
  | ErrorOther string
  | Errorf string error

text \<open>
  A Go call either returns or panics (nil dereference, index out of range). A returned
  \<^verbatim>\<open>(T, error)\<close> pair is \<open>error + T\<close>; a returned \<^verbatim>\<open>error\<close> is \<open>error option\<close>, \<open>None\<close> for nil.
\<close>

datatype 'a outcome = Returns 'a | Panics

record FilesystemNode =
  Type :: string
  Path :: string
  Modified :: Time
  FileSize :: int64
  FileType :: string
  SHA256Sum :: string

text \<open>
  The result of \<^verbatim>\<open>f.stat\<close>: the Go struct \<^verbatim>\<open>FilesystemPath\<close> with its fields \<^verbatim>\<open>Path\<close>,
  \<^verbatim>\<open>BaseIndex\<close> and \<^verbatim>\<open>Children\<close> (prefixed here, \<open>Path\<close> being the node's field already).
\<close>

record FilesystemPath =
  fsp_Path :: "FilesystemNode list"
  fsp_BaseIndex :: int
  fsp_Children :: "FilesystemNode list"

record SubscriptionType =
  sub_Name :: string
  StorageSpace :: int64

record UserInfo =
  Username :: string
  Subscription :: SubscriptionType
  StorageSpaceUsed :: int64

text \<open>rclone's \<^verbatim>\<open>fs.Usage\<close>: every field is a \<^verbatim>\<open>*int64\<close>, nil when unknown.\<close>

record Usage =
  Total :: "int64 option"
  Used :: "int64 option"
  Trashed :: "int64 option"
  Other :: "int64 option"
  Free :: "int64 option"
  Objects :: "int64 option"

definition NewUsageValue :: "int64 \<Rightarrow> int64 option" where
  "NewUsageValue v = Some v"

text \<open>rclone's \<^verbatim>\<open>hash.Type\<close> is an integer tag; this file names only \<^verbatim>\<open>hash.SHA256\<close>.\<close>

datatype hash_Type = SHA256 | OtherHash nat

type_synonym OpenOption = string

datatype any = TimeValue Time

subsection \<open>The remote API and the world\<close>

text \<open>
  The methods \<^verbatim>\<open>f.stat\<close>, \<^verbatim>\<open>f.put\<close>, \<^verbatim>\<open>f.update\<close>, \<^verbatim>\<open>f.mkdir\<close>, \<^verbatim>\<open>f.delete\<close>, \<^verbatim>\<open>f.rename\<close> and
  \<^verbatim>\<open>f.userInfo\<close> are request wrappers over the connection \<^verbatim>\<open>f.srv\<close>. What the remote
  answers is a parameter: the field \<open>srv\<close> of an \<open>Fs\<close> gives, for the calls made so far and
  the arguments of a call, the reply. Every call is appended to the log \<open>calls\<close> of the
  world.
\<close>

datatype call =
    CallStat string
  | CallPut string string "OpenOption list"
  | CallUpdate string "(string \<times> any) list"
  | CallMkdir string
  | CallDelete string bool
  | CallRename string string
  | CallUserInfo

record Client =
  stat_reply :: "call list \<Rightarrow> string \<Rightarrow> error + FilesystemPath"
  put_reply :: "call list \<Rightarrow> string \<Rightarrow> string \<Rightarrow> OpenOption list \<Rightarrow> error + FilesystemNode"
  update_reply :: "call list \<Rightarrow> string \<Rightarrow> (string \<times> any) list \<Rightarrow> error + FilesystemNode"
  mkdir_reply :: "call list \<Rightarrow> string \<Rightarrow> error option"
  delete_reply :: "call list \<Rightarrow> string \<Rightarrow> bool \<Rightarrow> error option"
  rename_reply :: "call list \<Rightarrow> string \<Rightarrow> string \<Rightarrow> error option"
  userInfo_reply :: "call list \<Rightarrow> error + UserInfo"

record Options =
  APIKey :: string
  BucketID :: string
  APIURL :: string

record Fs =
  name :: string
  root :: string
  opt :: Options
  srv :: Client
  loggedIn :: bool
  pathPrefix :: string

text \<open>
  An \<open>Object\<close> holds a pointer \<open>base\<close> to a node (\<open>None\<close> is nil) and two slices of nodes.
  Nodes live in a store: an address holds one node, a slice is the list of the addresses
  of its elements, so that \<open>base\<close> may point to an element of \<open>path\<close>.
\<close>

record Object =
  fs :: Fs
  base :: "nat option"
  path :: "nat list"
  children :: "nat list"

record world =
  nodes :: "nat \<Rightarrow> FilesystemNode"
  nextAddr :: nat
  calls :: "call list"

definition userInfo :: "Fs \<Rightarrow> world \<Rightarrow> (error + UserInfo) \<times> world" where
  "userInfo f w = (userInfo_reply (srv f) (calls w), w\<lparr>calls := calls w @ [CallUserInfo]\<rparr>)"

text \<open>The request wrappers: the reply of the remote, and the call logged.\<close>

definition stat :: "Fs \<Rightarrow> string \<Rightarrow> world \<Rightarrow> (error + FilesystemPath) \<times> world" where
  "stat f p w = (stat_reply (srv f) (calls w) p, w\<lparr>calls := calls w @ [CallStat p]\<rparr>)"

definition put ::
  "Fs \<Rightarrow> string \<Rightarrow> string \<Rightarrow> OpenOption list \<Rightarrow> world \<Rightarrow> (error + FilesystemNode) \<times> world" where
  "put f p body options w =
     (put_reply (srv f) (calls w) p body options,
      w\<lparr>calls := calls w @ [CallPut p body options]\<rparr>)"

definition update ::
  "Fs \<Rightarrow> string \<Rightarrow> (string \<times> any) list \<Rightarrow> world \<Rightarrow> (error + FilesystemNode) \<times> world" where
  "update f p params w =
     (update_reply (srv f) (calls w) p params, w\<lparr>calls := calls w @ [CallUpdate p params]\<rparr>)"

definition mkdir :: "Fs \<Rightarrow> string \<Rightarrow> world \<Rightarrow> error option \<times> world" where
  "mkdir f p w = (mkdir_reply (srv f) (calls w) p, w\<lparr>calls := calls w @ [CallMkdir p]\<rparr>)"

definition delete :: "Fs \<Rightarrow> string \<Rightarrow> bool \<Rightarrow> world \<Rightarrow> error option \<times> world" where
  "delete f p recursive w =
     (delete_reply (srv f) (calls w) p recursive,
      w\<lparr>calls := calls w @ [CallDelete p recursive]\<rparr>)"

definition rename :: "Fs \<Rightarrow> string \<Rightarrow> string \<Rightarrow> world \<Rightarrow> error option \<times> world" where
  "rename f src dst w =
     (rename_reply (srv f) (calls w) src dst, w\<lparr>calls := calls w @ [CallRename src dst]\<rparr>)"

subsection \<open>Building objects\<close>

text \<open>A slice of nodes placed in the store, at the next free addresses.\<close>

definition store_nodes :: "FilesystemNode list \<Rightarrow> world \<Rightarrow> nat list \<times> world" where
  "store_nodes ns w =
     (let a = nextAddr w in
      ([a ..< a + length ns],
       w\<lparr>nodes := (\<lambda>i. if a \<le> i \<and> i < a + length ns then ns ! (i - a) else nodes w i),
          nextAddr := a + length ns\<rparr>))"

text \<open>
  Modelled from the spec: \<^verbatim>\<open>nodeToObject\<close> is a method of \<^verbatim>\<open>Fs\<close> that this file calls and
  does not define. The spec's Object wraps exactly one node as its \<open>base\<close>; built from a
  single node, it has no path trace and no children.
\<close>

definition nodeToObject :: "Fs \<Rightarrow> FilesystemNode \<Rightarrow> world \<Rightarrow> Object \<times> world" where
  "nodeToObject f node w =
     (let a = nextAddr w in
      (\<lparr>fs = f, base = Some a, path = [], children = []\<rparr>,
       w\<lparr>nodes := (nodes w)(a := node), nextAddr := Suc a\<rparr>))"

text \<open>
  Modelled from the spec: \<^verbatim>\<open>pathToObject\<close> is a method of \<^verbatim>\<open>Fs\<close> that this file calls and
  does not define. The spec's Object wraps the target node, anchored at \<open>baseIndex\<close>,
  together with the stat result it was resolved from (\<open>path\<close>, \<open>children\<close>); the struct's
  comment has \<open>base\<close> point to a node in the path slice. Indexing the path out of range
  panics.
\<close>

definition pathToObject :: "Fs \<Rightarrow> FilesystemPath \<Rightarrow> world \<Rightarrow> Object outcome \<times> world" where
  "pathToObject f fsp w =
     (if 0 \<le> fsp_BaseIndex fsp \<and> fsp_BaseIndex fsp < int (length (fsp_Path fsp))
      then
        (case store_nodes (fsp_Path fsp) w of (ps, w1) \<Rightarrow>
           (case store_nodes (fsp_Children fsp) w1 of (cs, w2) \<Rightarrow>
              (Returns \<lparr>fs = f, base = Some (ps ! nat (fsp_BaseIndex fsp)),
                        path = ps, children = cs\<rparr>, w2)))
      else (Panics, w))"

section \<open>The operations of the file\<close>

subsection \<open>About\<close>

definition About :: "Fs \<Rightarrow> world \<Rightarrow> (error + Usage) \<times> world" where
  "About f w =
     (case userInfo f w of
        (Inl err, w') \<Rightarrow> (Inl (Errorf ''failed to read user info'' err), w')
      | (Inr user0, w') \<Rightarrow>
          (let user =
                 (if StorageSpace (Subscription user0) = - 1
                  then user0\<lparr>Subscription :=
                         (Subscription user0)\<lparr>StorageSpace := 1000000000000000\<rparr>\<rparr>
                  else user0)
           in (Inr \<lparr>Total = NewUsageValue (StorageSpace (Subscription user)),
                     Used = NewUsageValue (StorageSpaceUsed user),
                     Trashed = None,
                     Other = None,
                     Free = NewUsageValue
                              (StorageSpaceUsed user - StorageSpace (Subscription user)),
                     Objects = None\<rparr>, w')))"

subsection \<open>NewObject\<close>

definition NewObject :: "Fs \<Rightarrow> string \<Rightarrow> world \<Rightarrow> (error + Object) outcome \<times> world" where
  "NewObject f remote w =
     (case stat f remote w of
        (Inl err, w') \<Rightarrow>
          (if err = errNotFound then (Returns (Inl ErrorObjectNotFound), w')
           else (Returns (Inl err), w'))
      | (Inr fsp, w') \<Rightarrow>
          (if \<not> (0 \<le> fsp_BaseIndex fsp \<and> fsp_BaseIndex fsp < int (length (fsp_Path fsp)))
           then (Panics, w')
           else if Type (fsp_Path fsp ! nat (fsp_BaseIndex fsp)) = ''dir''
           then (Returns (Inl ErrorIsDir), w')
           else (case pathToObject f fsp w' of
                   (Returns obj, w'') \<Rightarrow> (Returns (Inr obj), w'')
                 | (Panics, w'') \<Rightarrow> (Panics, w''))))"

subsection \<open>Put\<close>

text \<open>The \<^verbatim>\<open>fs.ObjectInfo\<close> that \<^verbatim>\<open>Put\<close> reads: what its methods return.\<close>

record ObjectInfo =
  info_Remote :: string
  info_ModTime :: Time
  info_Size :: int64

definition Put ::
  "Fs \<Rightarrow> string \<Rightarrow> ObjectInfo \<Rightarrow> OpenOption list \<Rightarrow> world \<Rightarrow> (error + Object) \<times> world" where
  "Put f inp src options w =
     (case put f (info_Remote src) inp options w of
        (Inl err, w1) \<Rightarrow> (Inl (Errorf ''failed to put object'' err), w1)
      | (Inr uploaded, w1) \<Rightarrow>
          (case update f (info_Remote src) [(''modified'', TimeValue (info_ModTime src))] w1 of
             (Inl err, w2) \<Rightarrow> (Inl err, w2)
           | (Inr fsp, w2) \<Rightarrow>
               (case nodeToObject f fsp w2 of (obj, w3) \<Rightarrow> (Inr obj, w3))))"

subsection \<open>Mkdir, Rmdir, Purge\<close>

definition Mkdir :: "Fs \<Rightarrow> string \<Rightarrow> world \<Rightarrow> error option \<times> world" where
  "Mkdir f dir w =
     (case mkdir f dir w of (err, w') \<Rightarrow>
        (if err = Some errNotFound then (Some ErrorDirNotFound, w')
         else if err = Some errExists then (None, w')
         else (err, w')))"

definition Rmdir :: "Fs \<Rightarrow> string \<Rightarrow> world \<Rightarrow> error option \<times> world" where
  "Rmdir f dir w =
     (case delete f dir False w of (err, w') \<Rightarrow>
        (if err = Some errNotFound then (Some ErrorDirNotFound, w') else (err, w')))"

definition Purge :: "Fs \<Rightarrow> string \<Rightarrow> world \<Rightarrow> error option \<times> world" where
  "Purge f dir w =
     (case delete f dir True w of (err, w') \<Rightarrow>
        (if err = Some errNotFound then (Some ErrorDirNotFound, w') else (err, w')))"

subsection \<open>Objects: Remote, Hash, SetModTime\<close>

definition Remote :: "Object \<Rightarrow> world \<Rightarrow> string outcome" where
  "Remote obj w = (case base obj of None \<Rightarrow> Panics | Some b \<Rightarrow> Returns (Path (nodes w b)))"

definition Hash :: "Object \<Rightarrow> hash_Type \<Rightarrow> world \<Rightarrow> (string \<times> error option) outcome" where
  "Hash obj t w =
     (if t \<noteq> SHA256 then Returns ('''', Some ErrUnsupported)
      else (case base obj of
              None \<Rightarrow> Panics
            | Some b \<Rightarrow> Returns (SHA256Sum (nodes w b), None)))"

definition SetModTime :: "Object \<Rightarrow> Time \<Rightarrow> world \<Rightarrow> error option outcome \<times> world" where
  "SetModTime obj modTime w =
     (case base obj of
        None \<Rightarrow> (Panics, w)
      | Some b \<Rightarrow>
          (case update (fs obj) (Path (nodes w b)) [(''modified'', TimeValue modTime)] w of
             (Inl err, w') \<Rightarrow> (Returns (Some err), w')
           | (Inr n, w') \<Rightarrow>
               (Returns None,
                w'\<lparr>nodes := (nodes w')(b := (nodes w' b)\<lparr>Modified := modTime\<rparr>)\<rparr>)))"

subsection \<open>Move and DirMove\<close>

text \<open>
  An \<^verbatim>\<open>fs.Object\<close> interface value: nil, an \<open>Object\<close> of this backend, or an object of
  another concrete type, of which \<^verbatim>\<open>Move\<close> reads only what \<^verbatim>\<open>Remote()\<close> returns.
\<close>

datatype fs_Object = NilObject | PixeldrainObject Object | ForeignObject string

definition src_Remote :: "fs_Object \<Rightarrow> world \<Rightarrow> string outcome" where
  "src_Remote src w =
     (case src of
        NilObject \<Rightarrow> Panics
      | PixeldrainObject obj \<Rightarrow> Remote obj w
      | ForeignObject r \<Rightarrow> Returns r)"

definition Move ::
  "Fs \<Rightarrow> fs_Object \<Rightarrow> string \<Rightarrow> world \<Rightarrow> (error + Object) outcome \<times> world" where
  "Move f src remote w =
     (case src_Remote src w of
        Panics \<Rightarrow> (Panics, w)
      | Returns logged \<Rightarrow>
          (case src of
             PixeldrainObject srcObj \<Rightarrow>
               (case src_Remote src w of
                  Panics \<Rightarrow> (Panics, w)
                | Returns p \<Rightarrow>
                    (case rename f p remote w of
                       (Some err, w') \<Rightarrow>
                         (if err = errNotFound then (Returns (Inl ErrorCantMove), w')
                          else (Returns (Inl (Errorf ''failed to rename file'' err)), w'))
                     | (None, w') \<Rightarrow>
                         (case base srcObj of
                            None \<Rightarrow> (Panics, w')
                          | Some b \<Rightarrow>
                              (Returns (Inr srcObj),
                               w'\<lparr>nodes := (nodes w')(b := (nodes w' b)\<lparr>Path := remote\<rparr>)\<rparr>))))
           | _ \<Rightarrow> (Returns (Inl ErrorCantMove), w)))"

definition DirMove :: "Fs \<Rightarrow> 'a \<Rightarrow> string \<Rightarrow> string \<Rightarrow> world \<Rightarrow> error option \<times> world" where
  "DirMove f src srcRemote dstRemote w =
     (case rename f srcRemote dstRemote w of (err, w') \<Rightarrow>
        (if err = Some errNotFound then (Some ErrorDirNotFound, w')
         else if err = Some errExists then (Some ErrorDirExists, w')
         else (err, w')))"

section \<open>Example values\<close>

text \<open>Concrete clients, nodes and worlds, at which the theorems below are instantiated.\<close>

definition deadClient :: Client where
  "deadClient =
     \<lparr>stat_reply = (\<lambda>cs p. Inl errNotFound),
      put_reply = (\<lambda>cs p body options. Inl (ErrorOther ''unreachable'')),
      update_reply = (\<lambda>cs p params. Inl (ErrorOther ''unreachable'')),
      mkdir_reply = (\<lambda>cs p. Some (ErrorOther ''unreachable'')),
      delete_reply = (\<lambda>cs p recursive. Some (ErrorOther ''unreachable'')),
      rename_reply = (\<lambda>cs src dst. Some (ErrorOther ''unreachable'')),
      userInfo_reply = (\<lambda>cs. Inl (ErrorOther ''unreachable''))\<rparr>"

definition fs_of :: "Client \<Rightarrow> Fs" where
  "fs_of c =
     \<lparr>name = ''pd'', root = '''',
      opt = \<lparr>APIKey = ''key'', BucketID = ''me'', APIURL = ''https://pixeldrain.com/api''\<rparr>,
      srv = c, loggedIn = True, pathPrefix = ''/me/''\<rparr>"

definition file_node :: FilesystemNode where
  "file_node =
     \<lparr>Type = ''file'', Path = ''a.txt'', Modified = 1700000000000, FileSize = 5,
      FileType = ''text/plain'', SHA256Sum = ''2cf24dba''\<rparr>"

definition dir_node :: FilesystemNode where
  "dir_node =
     \<lparr>Type = ''dir'', Path = ''docs'', Modified = 1600000000000, FileSize = 0,
      FileType = '''', SHA256Sum = ''''\<rparr>"

definition world0 :: world where
  "world0 = \<lparr>nodes = (\<lambda>a. dir_node), nextAddr = 0, calls = []\<rparr>"

definition user_100_of_1000 :: UserInfo where
  "user_100_of_1000 =
     \<lparr>Username = ''alice'', Subscription = \<lparr>sub_Name = ''pro'', StorageSpace = 1000\<rparr>,
      StorageSpaceUsed = 100\<rparr>"

definition user_unlimited :: UserInfo where
  "user_unlimited =
     \<lparr>Username = ''bob'', Subscription = \<lparr>sub_Name = ''unlimited'', StorageSpace = - 1\<rparr>,
      StorageSpaceUsed = 100\<rparr>"

definition fsp_file :: FilesystemPath where
  "fsp_file = \<lparr>fsp_Path = [dir_node, file_node], fsp_BaseIndex = 1, fsp_Children = []\<rparr>"

definition fsp_dir :: FilesystemPath where
  "fsp_dir = \<lparr>fsp_Path = [dir_node], fsp_BaseIndex = 0, fsp_Children = [file_node]\<rparr>"

definition world1 :: world where
  "world1 = \<lparr>nodes = (\<lambda>a. if a = 1 then file_node else dir_node), nextAddr = 2, calls = []\<rparr>"

definition object1 :: "Client \<Rightarrow> Object" where
  "object1 c = \<lparr>fs = fs_of c, base = Some 1, path = [0, 1], children = []\<rparr>"

definition client_stat :: "error + FilesystemPath \<Rightarrow> Client" where
  "client_stat r = deadClient\<lparr>stat_reply := (\<lambda>cs p. r)\<rparr>"

definition client_rename :: "error option \<Rightarrow> Client" where
  "client_rename r = deadClient\<lparr>rename_reply := (\<lambda>cs src dst. r)\<rparr>"

definition client_mkdir :: "error option \<Rightarrow> Client" where
  "client_mkdir r = deadClient\<lparr>mkdir_reply := (\<lambda>cs p. r)\<rparr>"

definition client_update :: "error + FilesystemNode \<Rightarrow> Client" where
  "client_update r = deadClient\<lparr>update_reply := (\<lambda>cs p params. r)\<rparr>"

definition client_put_update :: "error + FilesystemNode \<Rightarrow> error + FilesystemNode \<Rightarrow> Client" where
  "client_put_update r1 r2 =
     deadClient\<lparr>put_reply := (\<lambda>cs p body options. r1), update_reply := (\<lambda>cs p params. r2)\<rparr>"

definition info1 :: ObjectInfo where
  "info1 = \<lparr>info_Remote = ''a.txt'', info_ModTime = 1700000000000, info_Size = 5\<rparr>"

definition uploaded_node :: FilesystemNode where
  "uploaded_node = file_node\<lparr>Modified := 1800000000000\<rparr>"

section \<open>Properties\<close>

subsection \<open>About\<close>

lemma About_Inr:
  "userInfo_reply (srv f) (calls w) = Inr user \<Longrightarrow>
   fst (About f w) =
     Inr \<lparr>Total = Some (if StorageSpace (Subscription user) = - 1 then 1000000000000000
                          else StorageSpace (Subscription user)),
          Used = Some (StorageSpaceUsed user),
          Trashed = None, Other = None,
          Free = Some (StorageSpaceUsed user -
                       (if StorageSpace (Subscription user) = - 1 then 1000000000000000
                        else StorageSpace (Subscription user))),
          Objects = None\<rparr>"
  by (simp add: About_def userInfo_def NewUsageValue_def Let_def)

text \<open>
  C1. The claim: About returns a usage record in which free equals total minus used, and
  free is non-negative whenever used is at most total. The code computes
  \<^verbatim>\<open>user.StorageSpaceUsed - user.Subscription.StorageSpace\<close>, used minus total: for an
  account that uses 100 bytes of 1000, the record has \<open>Free = -900\<close>, where total minus
  used is 900.
\<close>

theorem About_free_at_100_of_1000:
  "fst (About (fs_of (deadClient\<lparr>userInfo_reply := (\<lambda>cs. Inr user_100_of_1000)\<rparr>)) world0) =
     Inr \<lparr>Total = Some 1000, Used = Some 100, Trashed = None, Other = None,
          Free = Some (- 900), Objects = None\<rparr>
   \<and> sint (- 900 :: int64) = - 900"
  by (simp add: About_Inr fs_of_def deadClient_def user_100_of_1000_def world0_def)

text \<open>
  C8. When the account's storage limit is the unlimited sentinel \<open>-1\<close>, About returns
  the fixed ceiling of one petabyte, \<open>10 ^ 15\<close> bytes, as the total; the value fits an
  \<^verbatim>\<open>int64\<close> without wrapping.
\<close>

theorem About_unlimited_total:
  "userInfo_reply (srv f) (calls w) = Inr user \<Longrightarrow>
   StorageSpace (Subscription user) = - 1 \<Longrightarrow>
   (\<exists>u. fst (About f w) = Inr u \<and> Total u = Some 1000000000000000)
   \<and> sint (1000000000000000 :: int64) = 10 ^ 15"
  by (simp add: About_Inr)

theorem About_unlimited_total_witness:
  "(\<exists>u. fst (About (fs_of (deadClient\<lparr>userInfo_reply := (\<lambda>cs. Inr user_unlimited)\<rparr>)) world0) = Inr u
        \<and> Total u = Some 1000000000000000)
   \<and> sint (1000000000000000 :: int64) = 10 ^ 15"
  using About_unlimited_total
    [of "fs_of (deadClient\<lparr>userInfo_reply := (\<lambda>cs. Inr user_unlimited)\<rparr>)" world0 user_unlimited]
  by (simp add: fs_of_def deadClient_def user_unlimited_def)

subsection \<open>NewObject\<close>

lemma store_nodes_facts:
  assumes "store_nodes ns w = (as, w')"
  shows "as = [nextAddr w ..< nextAddr w + length ns]"
    and "map (nodes w') as = ns"
    and "\<And>i. i < nextAddr w \<Longrightarrow> nodes w' i = nodes w i"
    and "nextAddr w' = nextAddr w + length ns"
    and "calls w' = calls w"
proof -
  from assms show a: "as = [nextAddr w ..< nextAddr w + length ns]"
    by (auto simp: store_nodes_def Let_def)
  from assms have n: "nodes w' = (\<lambda>i. if nextAddr w \<le> i \<and> i < nextAddr w + length ns
                                       then ns ! (i - nextAddr w) else nodes w i)"
    by (auto simp: store_nodes_def Let_def)
  show "map (nodes w') as = ns"
    unfolding a n by (rule nth_equalityI) simp_all
  show "\<And>i. i < nextAddr w \<Longrightarrow> nodes w' i = nodes w i"
    unfolding n by simp
  from assms show "nextAddr w' = nextAddr w + length ns"
    by (auto simp: store_nodes_def Let_def)
  from assms show "calls w' = calls w"
    by (auto simp: store_nodes_def Let_def)
qed

lemma pathToObject_wraps:
  assumes "0 \<le> fsp_BaseIndex fsp" and "fsp_BaseIndex fsp < int (length (fsp_Path fsp))"
  shows "\<exists>obj w'. pathToObject f fsp w = (Returns obj, w')
           \<and> fs obj = f
           \<and> base obj = Some (path obj ! nat (fsp_BaseIndex fsp))
           \<and> nodes w' (path obj ! nat (fsp_BaseIndex fsp)) = fsp_Path fsp ! nat (fsp_BaseIndex fsp)
           \<and> map (nodes w') (path obj) = fsp_Path fsp
           \<and> map (nodes w') (children obj) = fsp_Children fsp
           \<and> calls w' = calls w"
proof -
  obtain ps w1 where s1: "store_nodes (fsp_Path fsp) w = (ps, w1)"
    by (cases "store_nodes (fsp_Path fsp) w")
  obtain cs w2 where s2: "store_nodes (fsp_Children fsp) w1 = (cs, w2)"
    by (cases "store_nodes (fsp_Children fsp) w1")
  let ?k = "nat (fsp_BaseIndex fsp)"
  have k: "?k < length (fsp_Path fsp)" using assms by simp
  have ps: "ps = [nextAddr w ..< nextAddr w + length (fsp_Path fsp)]"
    using store_nodes_facts(1) [OF s1] .
  have below: "\<forall>a \<in> set ps. a < nextAddr w1"
    using store_nodes_facts(4) [OF s1] ps by simp
  have "map (nodes w2) ps = map (nodes w1) ps"
    using below store_nodes_facts(3) [OF s2] by simp
  then have mp: "map (nodes w2) ps = fsp_Path fsp"
    using store_nodes_facts(2) [OF s1] by simp
  have len: "length ps = length (fsp_Path fsp)" using ps by simp
  have "nodes w2 (ps ! ?k) = map (nodes w2) ps ! ?k"
    using k len by simp
  then have nb: "nodes w2 (ps ! ?k) = fsp_Path fsp ! ?k"
    using mp by simp
  have mc: "map (nodes w2) cs = fsp_Children fsp"
    using store_nodes_facts(2) [OF s2] .
  have cl: "calls w2 = calls w"
    using store_nodes_facts(5) [OF s1] store_nodes_facts(5) [OF s2] by simp
  have "pathToObject f fsp w =
          (Returns \<lparr>fs = f, base = Some (ps ! ?k), path = ps, children = cs\<rparr>, w2)"
    using assms s1 s2 by (simp add: pathToObject_def)
  then show ?thesis using nb mp mc cl by simp
qed

text \<open>
  C2. NewObject returns ObjectNotFound when the resolver reports the path absent, hands
  any other error of the resolver on, returns IsDir, and no Object, when the type of the
  resolved target node is \<open>dir\<close>, and otherwise returns an Object that wraps the target
  node: its \<open>base\<close> points to the element at \<open>BaseIndex\<close> of its path slice, which holds
  the target node, and its path and children hold the nodes of the stat result. The
  target node \<open>Path[BaseIndex]\<close> of a successful stat result exists.
\<close>

theorem NewObject_cases:
  "(stat_reply (srv f) (calls w) remote = Inl errNotFound \<longrightarrow>
      fst (NewObject f remote w) = Returns (Inl ErrorObjectNotFound))
   \<and> (\<forall>e. stat_reply (srv f) (calls w) remote = Inl e \<and> e \<noteq> errNotFound \<longrightarrow>
      fst (NewObject f remote w) = Returns (Inl e))
   \<and> (\<forall>fsp. stat_reply (srv f) (calls w) remote = Inr fsp
          \<and> 0 \<le> fsp_BaseIndex fsp \<and> fsp_BaseIndex fsp < int (length (fsp_Path fsp))
          \<and> Type (fsp_Path fsp ! nat (fsp_BaseIndex fsp)) = ''dir'' \<longrightarrow>
      fst (NewObject f remote w) = Returns (Inl ErrorIsDir))
   \<and> (\<forall>fsp. stat_reply (srv f) (calls w) remote = Inr fsp
          \<and> 0 \<le> fsp_BaseIndex fsp \<and> fsp_BaseIndex fsp < int (length (fsp_Path fsp))
          \<and> Type (fsp_Path fsp ! nat (fsp_BaseIndex fsp)) \<noteq> ''dir'' \<longrightarrow>
      (\<exists>obj w'. NewObject f remote w = (Returns (Inr obj), w')
         \<and> fs obj = f
         \<and> base obj = Some (path obj ! nat (fsp_BaseIndex fsp))
         \<and> nodes w' (path obj ! nat (fsp_BaseIndex fsp)) = fsp_Path fsp ! nat (fsp_BaseIndex fsp)
         \<and> map (nodes w') (path obj) = fsp_Path fsp
         \<and> map (nodes w') (children obj) = fsp_Children fsp))"
proof (intro conjI allI impI)
  assume "stat_reply (srv f) (calls w) remote = Inl errNotFound"
  then show "fst (NewObject f remote w) = Returns (Inl ErrorObjectNotFound)"
    by (simp add: NewObject_def stat_def)
next
  fix e
  assume "stat_reply (srv f) (calls w) remote = Inl e \<and> e \<noteq> errNotFound"
  then show "fst (NewObject f remote w) = Returns (Inl e)"
    by (simp add: NewObject_def stat_def)
next
  fix fsp
  assume "stat_reply (srv f) (calls w) remote = Inr fsp
          \<and> 0 \<le> fsp_BaseIndex fsp \<and> fsp_BaseIndex fsp < int (length (fsp_Path fsp))
          \<and> Type (fsp_Path fsp ! nat (fsp_BaseIndex fsp)) = ''dir''"
  then show "fst (NewObject f remote w) = Returns (Inl ErrorIsDir)"
    by (simp add: NewObject_def stat_def)
next
  fix fsp
  assume a: "stat_reply (srv f) (calls w) remote = Inr fsp
          \<and> 0 \<le> fsp_BaseIndex fsp \<and> fsp_BaseIndex fsp < int (length (fsp_Path fsp))
          \<and> Type (fsp_Path fsp ! nat (fsp_BaseIndex fsp)) \<noteq> ''dir''"
  let ?w1 = "w\<lparr>calls := calls w @ [CallStat remote]\<rparr>"
  from a pathToObject_wraps [of fsp f ?w1]
  obtain obj w' where p: "pathToObject f fsp ?w1 = (Returns obj, w')"
    and q: "fs obj = f" "base obj = Some (path obj ! nat (fsp_BaseIndex fsp))"
      "nodes w' (path obj ! nat (fsp_BaseIndex fsp)) = fsp_Path fsp ! nat (fsp_BaseIndex fsp)"
      "map (nodes w') (path obj) = fsp_Path fsp"
      "map (nodes w') (children obj) = fsp_Children fsp"
    by blast
  have "NewObject f remote w = (Returns (Inr obj), w')"
    using a p by (simp add: NewObject_def stat_def)
  with q show "\<exists>obj w'. NewObject f remote w = (Returns (Inr obj), w')
         \<and> fs obj = f
         \<and> base obj = Some (path obj ! nat (fsp_BaseIndex fsp))
         \<and> nodes w' (path obj ! nat (fsp_BaseIndex fsp)) = fsp_Path fsp ! nat (fsp_BaseIndex fsp)
         \<and> map (nodes w') (path obj) = fsp_Path fsp
         \<and> map (nodes w') (children obj) = fsp_Children fsp"
    by blast
qed

theorem NewObject_cases_witness:
  "fst (NewObject (fs_of (client_stat (Inl errNotFound))) ''missing'' world0)
     = Returns (Inl ErrorObjectNotFound)
   \<and> fst (NewObject (fs_of (client_stat (Inl (ErrorOther ''timeout'')))) ''a.txt'' world0)
     = Returns (Inl (ErrorOther ''timeout''))
   \<and> fst (NewObject (fs_of (client_stat (Inr fsp_dir))) ''docs'' world0) = Returns (Inl ErrorIsDir)
   \<and> (\<exists>obj w'. NewObject (fs_of (client_stat (Inr fsp_file))) ''a.txt'' world0
                   = (Returns (Inr obj), w')
         \<and> base obj = Some (path obj ! 1)
         \<and> nodes w' (path obj ! 1) = file_node
         \<and> map (nodes w') (path obj) = [dir_node, file_node]
         \<and> map (nodes w') (children obj) = [])"
proof -
  have h1: "stat_reply (srv (fs_of (client_stat (Inl errNotFound)))) (calls world0) ''missing''
              = Inl errNotFound"
    by (simp add: fs_of_def client_stat_def)
  have h2: "stat_reply (srv (fs_of (client_stat (Inl (ErrorOther ''timeout''))))) (calls world0)
              ''a.txt'' = Inl (ErrorOther ''timeout'') \<and> ErrorOther ''timeout'' \<noteq> errNotFound"
    by (simp add: fs_of_def client_stat_def)
  have h3: "stat_reply (srv (fs_of (client_stat (Inr fsp_dir)))) (calls world0) ''docs''
              = Inr fsp_dir
            \<and> 0 \<le> fsp_BaseIndex fsp_dir
            \<and> fsp_BaseIndex fsp_dir < int (length (fsp_Path fsp_dir))
            \<and> Type (fsp_Path fsp_dir ! nat (fsp_BaseIndex fsp_dir)) = ''dir''"
    by (simp add: fs_of_def client_stat_def fsp_dir_def dir_node_def)
  have h4: "stat_reply (srv (fs_of (client_stat (Inr fsp_file)))) (calls world0) ''a.txt''
              = Inr fsp_file
            \<and> 0 \<le> fsp_BaseIndex fsp_file
            \<and> fsp_BaseIndex fsp_file < int (length (fsp_Path fsp_file))
            \<and> Type (fsp_Path fsp_file ! nat (fsp_BaseIndex fsp_file)) \<noteq> ''dir''"
    by (simp add: fs_of_def client_stat_def fsp_file_def file_node_def)
  have v: "nat (fsp_BaseIndex fsp_file) = 1" "fsp_Path fsp_file ! 1 = file_node"
    "fsp_Path fsp_file = [dir_node, file_node]" "fsp_Children fsp_file = []"
    by (simp_all add: fsp_file_def)
  from h1 NewObject_cases [of "fs_of (client_stat (Inl errNotFound))" world0 "''missing''"]
  have c1: "fst (NewObject (fs_of (client_stat (Inl errNotFound))) ''missing'' world0)
              = Returns (Inl ErrorObjectNotFound)"
    by blast
  from h2 NewObject_cases
    [of "fs_of (client_stat (Inl (ErrorOther ''timeout'')))" world0 "''a.txt''"]
  have c2: "fst (NewObject (fs_of (client_stat (Inl (ErrorOther ''timeout'')))) ''a.txt'' world0)
              = Returns (Inl (ErrorOther ''timeout''))"
    by blast
  from h3 NewObject_cases [of "fs_of (client_stat (Inr fsp_dir))" world0 "''docs''"]
  have c3: "fst (NewObject (fs_of (client_stat (Inr fsp_dir))) ''docs'' world0)
              = Returns (Inl ErrorIsDir)"
    by blast
  from h4 NewObject_cases [of "fs_of (client_stat (Inr fsp_file))" world0 "''a.txt''"]
  have c4: "\<exists>obj w'. NewObject (fs_of (client_stat (Inr fsp_file))) ''a.txt'' world0
                   = (Returns (Inr obj), w')
         \<and> fs obj = fs_of (client_stat (Inr fsp_file))
         \<and> base obj = Some (path obj ! nat (fsp_BaseIndex fsp_file))
         \<and> nodes w' (path obj ! nat (fsp_BaseIndex fsp_file))
             = fsp_Path fsp_file ! nat (fsp_BaseIndex fsp_file)
         \<and> map (nodes w') (path obj) = fsp_Path fsp_file
         \<and> map (nodes w') (children obj) = fsp_Children fsp_file"
    by blast
  from c4 have c4': "\<exists>obj w'. NewObject (fs_of (client_stat (Inr fsp_file))) ''a.txt'' world0
                   = (Returns (Inr obj), w')
         \<and> base obj = Some (path obj ! 1)
         \<and> nodes w' (path obj ! 1) = file_node
         \<and> map (nodes w') (path obj) = [dir_node, file_node]
         \<and> map (nodes w') (children obj) = []"
    by (auto simp: v)
  from c1 c2 c3 c4' show ?thesis by blast
qed

subsection \<open>Move and DirMove\<close>

text \<open>
  C3. When the rename reports NotFound, Move returns CantMove and DirMove returns
  DirNotFound. When the rename reports that the destination exists, DirMove returns
  DirExists, and Move returns the error wrapped as \<^verbatim>\<open>failed to rename file\<close>, which is
  none of the sentinels.
\<close>

theorem Move_DirMove_rename_errors:
  "(base srcObj = Some b
      \<and> rename_reply (srv f) (calls w) (Path (nodes w b)) remote = Some errNotFound \<longrightarrow>
      fst (Move f (PixeldrainObject srcObj) remote w) = Returns (Inl ErrorCantMove))
   \<and> (rename_reply (srv f) (calls w) srcRemote dstRemote = Some errNotFound \<longrightarrow>
      fst (DirMove f src srcRemote dstRemote w) = Some ErrorDirNotFound)
   \<and> (rename_reply (srv f) (calls w) srcRemote dstRemote = Some errExists \<longrightarrow>
      fst (DirMove f src srcRemote dstRemote w) = Some ErrorDirExists)
   \<and> (base srcObj = Some b
      \<and> rename_reply (srv f) (calls w) (Path (nodes w b)) remote = Some errExists \<longrightarrow>
      fst (Move f (PixeldrainObject srcObj) remote w)
        = Returns (Inl (Errorf ''failed to rename file'' errExists)))"
  by (simp add: Move_def DirMove_def src_Remote_def Remote_def rename_def)

theorem Move_DirMove_rename_errors_witness:
  "fst (Move (fs_of (client_rename (Some errNotFound)))
          (PixeldrainObject (object1 deadClient)) ''b.txt'' world1) = Returns (Inl ErrorCantMove)
   \<and> fst (DirMove (fs_of (client_rename (Some errNotFound))) (fs_of deadClient)
            ''docs'' ''papers'' world1) = Some ErrorDirNotFound
   \<and> fst (DirMove (fs_of (client_rename (Some errExists))) (fs_of deadClient)
            ''docs'' ''papers'' world1) = Some ErrorDirExists
   \<and> fst (Move (fs_of (client_rename (Some errExists)))
            (PixeldrainObject (object1 deadClient)) ''b.txt'' world1)
        = Returns (Inl (Errorf ''failed to rename file'' errExists))"
  using Move_DirMove_rename_errors
      [of "object1 deadClient" 1 "fs_of (client_rename (Some errNotFound))" world1 "''b.txt''"
          "''docs''" "''papers''" "fs_of deadClient"]
    Move_DirMove_rename_errors
      [of "object1 deadClient" 1 "fs_of (client_rename (Some errExists))" world1 "''b.txt''"
          "''docs''" "''papers''" "fs_of deadClient"]
  by (simp add: object1_def world1_def fs_of_def client_rename_def deadClient_def file_node_def)

text \<open>
  C6. When Move succeeds on an Object of this backend, the Object returned is the
  caller's Object with the same \<open>fs\<close>, \<open>base\<close> pointer, \<open>path\<close> and \<open>children\<close> slices;
  in the store, the node that \<open>base\<close> points to has its \<open>Path\<close> set to the destination
  and every other field as before (size, hash, mime type, modification time, type), and
  every other node, so every other element of the path and children slices, is as before.
\<close>

theorem Move_success_frame:
  "fst (Move f (PixeldrainObject srcObj) remote w) = Returns (Inr obj') \<Longrightarrow>
   obj' = srcObj
   \<and> fs obj' = fs srcObj \<and> base obj' = base srcObj
   \<and> path obj' = path srcObj \<and> children obj' = children srcObj
   \<and> (\<exists>b. base srcObj = Some b
        \<and> nodes (snd (Move f (PixeldrainObject srcObj) remote w)) b
            = (nodes w b)\<lparr>Path := remote\<rparr>
        \<and> Path (nodes (snd (Move f (PixeldrainObject srcObj) remote w)) b) = remote
        \<and> FileSize (nodes (snd (Move f (PixeldrainObject srcObj) remote w)) b)
            = FileSize (nodes w b)
        \<and> SHA256Sum (nodes (snd (Move f (PixeldrainObject srcObj) remote w)) b)
            = SHA256Sum (nodes w b)
        \<and> FileType (nodes (snd (Move f (PixeldrainObject srcObj) remote w)) b)
            = FileType (nodes w b)
        \<and> Modified (nodes (snd (Move f (PixeldrainObject srcObj) remote w)) b)
            = Modified (nodes w b)
        \<and> Type (nodes (snd (Move f (PixeldrainObject srcObj) remote w)) b)
            = Type (nodes w b)
        \<and> (\<forall>a. a \<noteq> b \<longrightarrow>
             nodes (snd (Move f (PixeldrainObject srcObj) remote w)) a = nodes w a))"
  by (auto simp: Move_def src_Remote_def Remote_def rename_def
           split: option.splits if_splits)

theorem Move_success_frame_witness:
  "fst (Move (fs_of (client_rename None)) (PixeldrainObject (object1 deadClient)) ''b.txt'' world1)
     = Returns (Inr (object1 deadClient))
   \<and> nodes (snd (Move (fs_of (client_rename None)) (PixeldrainObject (object1 deadClient))
                  ''b.txt'' world1)) 1 = file_node\<lparr>Path := ''b.txt''\<rparr>
   \<and> nodes (snd (Move (fs_of (client_rename None)) (PixeldrainObject (object1 deadClient))
                  ''b.txt'' world1)) 0 = dir_node"
proof -
  let ?m = "Move (fs_of (client_rename None)) (PixeldrainObject (object1 deadClient))
              ''b.txt'' world1"
  have h: "fst ?m = Returns (Inr (object1 deadClient))"
    by (simp add: Move_def src_Remote_def Remote_def rename_def object1_def world1_def
          fs_of_def client_rename_def deadClient_def)
  have b: "base (object1 deadClient) = Some 1" "nodes world1 1 = file_node"
    "nodes world1 0 = dir_node"
    by (simp_all add: object1_def world1_def)
  from Move_success_frame [OF h] b
  have "nodes (snd ?m) 1 = file_node\<lparr>Path := ''b.txt''\<rparr>" "nodes (snd ?m) 0 = dir_node"
    by auto
  with h show ?thesis by blast
qed

text \<open>
  C7. For a source object of another concrete type, Move returns CantMove and leaves
  the world as it was: no call to the remote is logged.
\<close>

theorem Move_foreign_object:
  "Move f (ForeignObject r) remote w = (Returns (Inl ErrorCantMove), w)
   \<and> calls (snd (Move f (ForeignObject r) remote w)) = calls w"
  by (simp add: Move_def src_Remote_def)

theorem Move_foreign_object_witness:
  "Move (fs_of deadClient) (ForeignObject ''elsewhere/a.txt'') ''b.txt'' world1
     = (Returns (Inl ErrorCantMove), world1)
   \<and> calls (snd (Move (fs_of deadClient) (ForeignObject ''elsewhere/a.txt'') ''b.txt'' world1))
       = []"
  using Move_foreign_object [of "fs_of deadClient" "''elsewhere/a.txt''" "''b.txt''" world1]
  by (simp add: world1_def)

subsection \<open>Mkdir\<close>

text \<open>
  C4. Mkdir returns no error when the remote reports that the directory exists already,
  DirNotFound when the remote reports NotFound, and every other error of the remote
  as it is: Mkdir returns nil only if the remote succeeded or reported that the
  directory exists.
\<close>

theorem Mkdir_error_mapping:
  "(mkdir_reply (srv f) (calls w) dir = Some errExists \<longrightarrow> fst (Mkdir f dir w) = None)
   \<and> (mkdir_reply (srv f) (calls w) dir = Some errNotFound \<longrightarrow>
        fst (Mkdir f dir w) = Some ErrorDirNotFound)
   \<and> (\<forall>e. mkdir_reply (srv f) (calls w) dir = Some e \<and> e \<noteq> errExists \<and> e \<noteq> errNotFound \<longrightarrow>
        fst (Mkdir f dir w) = Some e)
   \<and> (fst (Mkdir f dir w) = None \<longleftrightarrow>
        mkdir_reply (srv f) (calls w) dir = None \<or> mkdir_reply (srv f) (calls w) dir = Some errExists)"
  by (auto simp: Mkdir_def mkdir_def)

theorem Mkdir_error_mapping_witness:
  "fst (Mkdir (fs_of (client_mkdir (Some errExists))) ''docs'' world0) = None
   \<and> fst (Mkdir (fs_of (client_mkdir (Some errNotFound))) ''a/b'' world0) = Some ErrorDirNotFound
   \<and> fst (Mkdir (fs_of (client_mkdir (Some (ErrorOther ''quota''))))  ''docs'' world0)
       = Some (ErrorOther ''quota'')"
  using Mkdir_error_mapping [of "fs_of (client_mkdir (Some errExists))" world0 "''docs''"]
    Mkdir_error_mapping [of "fs_of (client_mkdir (Some errNotFound))" world0 "''a/b''"]
    Mkdir_error_mapping [of "fs_of (client_mkdir (Some (ErrorOther ''quota'')))" world0 "''docs''"]
  by (simp add: fs_of_def client_mkdir_def world0_def)

subsection \<open>Put\<close>

text \<open>
  C5. Put makes the upload call first and the metadata-update call, which carries the
  modification time of the source, second. If the upload fails, Put returns the wrapped
  error, no Object, and has made the upload call only; if the update fails, Put returns
  its error and no Object; if both succeed, Put returns the Object that \<open>nodeToObject\<close>
  builds from the node of the update's reply, whatever node the upload replied.
\<close>

theorem Put_uploads_then_updates:
  "(\<forall>e. put_reply (srv f) (calls w) (info_Remote src) inp options = Inl e \<longrightarrow>
        Put f inp src options w =
          (Inl (Errorf ''failed to put object'' e),
           w\<lparr>calls := calls w @ [CallPut (info_Remote src) inp options]\<rparr>))
   \<and> (\<forall>up e. put_reply (srv f) (calls w) (info_Remote src) inp options = Inr up
        \<and> update_reply (srv f) (calls w @ [CallPut (info_Remote src) inp options])
             (info_Remote src) [(''modified'', TimeValue (info_ModTime src))] = Inl e \<longrightarrow>
        Put f inp src options w =
          (Inl e,
           w\<lparr>calls := calls w @ [CallPut (info_Remote src) inp options,
                CallUpdate (info_Remote src) [(''modified'', TimeValue (info_ModTime src))]]\<rparr>))
   \<and> (\<forall>up n. put_reply (srv f) (calls w) (info_Remote src) inp options = Inr up
        \<and> update_reply (srv f) (calls w @ [CallPut (info_Remote src) inp options])
             (info_Remote src) [(''modified'', TimeValue (info_ModTime src))] = Inr n \<longrightarrow>
        (\<exists>obj w' b. Put f inp src options w = (Inr obj, w')
           \<and> (obj, w') =
               nodeToObject f n
                 (w\<lparr>calls := calls w @ [CallPut (info_Remote src) inp options,
                      CallUpdate (info_Remote src)
                        [(''modified'', TimeValue (info_ModTime src))]]\<rparr>)
           \<and> base obj = Some b \<and> nodes w' b = n
           \<and> calls w' = calls w @ [CallPut (info_Remote src) inp options,
                CallUpdate (info_Remote src) [(''modified'', TimeValue (info_ModTime src))]]))"
  by (simp add: Put_def put_def update_def nodeToObject_def Let_def)

theorem Put_uploads_then_updates_witness:
  "Put (fs_of (client_put_update (Inl (ErrorOther ''disk full'')) (Inr file_node)))
       ''hello'' info1 [] world0
     = (Inl (Errorf ''failed to put object'' (ErrorOther ''disk full'')),
        world0\<lparr>calls := [CallPut ''a.txt'' ''hello'' []]\<rparr>)
   \<and> Put (fs_of (client_put_update (Inr uploaded_node) (Inl (ErrorOther ''denied''))))
       ''hello'' info1 [] world0
     = (Inl (ErrorOther ''denied''),
        world0\<lparr>calls := [CallPut ''a.txt'' ''hello'' [],
                 CallUpdate ''a.txt'' [(''modified'', TimeValue 1700000000000)]]\<rparr>)
   \<and> (\<exists>obj w' b. Put (fs_of (client_put_update (Inr uploaded_node) (Inr file_node)))
                     ''hello'' info1 [] world0 = (Inr obj, w')
          \<and> base obj = Some b \<and> nodes w' b = file_node
          \<and> calls w' = [CallPut ''a.txt'' ''hello'' [],
                 CallUpdate ''a.txt'' [(''modified'', TimeValue 1700000000000)]])"
proof -
  let ?f1 = "fs_of (client_put_update (Inl (ErrorOther ''disk full'')) (Inr file_node))"
  let ?f2 = "fs_of (client_put_update (Inr uploaded_node) (Inl (ErrorOther ''denied'')))"
  let ?f3 = "fs_of (client_put_update (Inr uploaded_node) (Inr file_node))"
  have c1: "Put ?f1 ''hello'' info1 [] world0
     = (Inl (Errorf ''failed to put object'' (ErrorOther ''disk full'')),
        world0\<lparr>calls := [CallPut ''a.txt'' ''hello'' []]\<rparr>)"
    using Put_uploads_then_updates [of ?f1 world0 info1 "''hello''" "[]"]
    by (simp add: fs_of_def client_put_update_def info1_def world0_def)
  have c2: "Put ?f2 ''hello'' info1 [] world0
     = (Inl (ErrorOther ''denied''),
        world0\<lparr>calls := [CallPut ''a.txt'' ''hello'' [],
                 CallUpdate ''a.txt'' [(''modified'', TimeValue 1700000000000)]]\<rparr>)"
    using Put_uploads_then_updates [of ?f2 world0 info1 "''hello''" "[]"]
    by (simp add: fs_of_def client_put_update_def info1_def world0_def)
  have p3: "put_reply (srv ?f3) (calls world0) (info_Remote info1) ''hello'' [] = Inr uploaded_node
            \<and> update_reply (srv ?f3) (calls world0 @ [CallPut (info_Remote info1) ''hello'' []])
                 (info_Remote info1) [(''modified'', TimeValue (info_ModTime info1))]
               = Inr file_node"
    by (simp add: fs_of_def client_put_update_def)
  from Put_uploads_then_updates [of ?f3 world0 info1 "''hello''" "[]"] p3
  obtain obj w' b where o: "Put ?f3 ''hello'' info1 [] world0 = (Inr obj, w')"
      "base obj = Some b" "nodes w' b = file_node"
      "calls w' = calls world0 @ [CallPut (info_Remote info1) ''hello'' [],
         CallUpdate (info_Remote info1) [(''modified'', TimeValue (info_ModTime info1))]]"
    by blast
  from o(4) have "calls w' = [CallPut ''a.txt'' ''hello'' [],
                 CallUpdate ''a.txt'' [(''modified'', TimeValue 1700000000000)]]"
    by (simp add: info1_def world0_def)
  with o(1-3) have c3: "\<exists>obj w' b. Put ?f3 ''hello'' info1 [] world0 = (Inr obj, w')
          \<and> base obj = Some b \<and> nodes w' b = file_node
          \<and> calls w' = [CallPut ''a.txt'' ''hello'' [],
                 CallUpdate ''a.txt'' [(''modified'', TimeValue 1700000000000)]]"
    by blast
  from c1 c2 c3 show ?thesis by blast
qed

subsection \<open>Hash and SetModTime\<close>

text \<open>
  C9. Hash returns the SHA-256 sum of the base node and no error when the type asked for
  is SHA256, and the empty string with the error \<open>ErrUnsupported\<close> for every other type.
\<close>

theorem Hash_cases:
  "(t = SHA256 \<and> base obj = Some b \<longrightarrow> Hash obj t w = Returns (SHA256Sum (nodes w b), None))
   \<and> (t \<noteq> SHA256 \<longrightarrow> Hash obj t w = Returns ('''', Some ErrUnsupported))"
  by (simp add: Hash_def)

theorem Hash_cases_witness:
  "Hash (object1 deadClient) SHA256 world1 = Returns (''2cf24dba'', None)
   \<and> Hash (object1 deadClient) (OtherHash 1) world1 = Returns ('''', Some ErrUnsupported)"
  using Hash_cases [of SHA256 "object1 deadClient" 1 world1]
    Hash_cases [of "OtherHash 1" "object1 deadClient" 1 world1]
  by (simp add: object1_def world1_def file_node_def)

text \<open>
  C10. When the update call of SetModTime returns an error, SetModTime returns that
  error and the store of nodes is as before; when the call succeeds, SetModTime returns
  nil and the store differs only in the \<open>Modified\<close> field of the base node, which is the
  new time.
\<close>

theorem SetModTime_frame:
  "base obj = Some b \<Longrightarrow>
   (\<forall>e. update_reply (srv (fs obj)) (calls w) (Path (nodes w b))
            [(''modified'', TimeValue modTime)] = Inl e \<longrightarrow>
        fst (SetModTime obj modTime w) = Returns (Some e)
        \<and> nodes (snd (SetModTime obj modTime w)) = nodes w)
   \<and> (\<forall>n. update_reply (srv (fs obj)) (calls w) (Path (nodes w b))
            [(''modified'', TimeValue modTime)] = Inr n \<longrightarrow>
        fst (SetModTime obj modTime w) = Returns None
        \<and> nodes (snd (SetModTime obj modTime w))
            = (nodes w)(b := (nodes w b)\<lparr>Modified := modTime\<rparr>))"
  by (simp add: SetModTime_def update_def)

theorem SetModTime_frame_witness:
  "fst (SetModTime (object1 (client_update (Inl (ErrorOther ''denied'')))) 42 world1)
     = Returns (Some (ErrorOther ''denied''))
   \<and> nodes (snd (SetModTime (object1 (client_update (Inl (ErrorOther ''denied'')))) 42 world1))
     = nodes world1
   \<and> fst (SetModTime (object1 (client_update (Inr file_node))) 42 world1) = Returns None
   \<and> nodes (snd (SetModTime (object1 (client_update (Inr file_node))) 42 world1))
     = (nodes world1)(1 := file_node\<lparr>Modified := 42\<rparr>)"
proof -
  have b: "\<And>c. base (object1 c) = Some 1" "nodes world1 1 = file_node"
    by (simp_all add: object1_def world1_def)
  have u1: "update_reply (srv (fs (object1 (client_update (Inl (ErrorOther ''denied''))))))
              (calls world1) (Path (nodes world1 1)) [(''modified'', TimeValue 42)]
            = Inl (ErrorOther ''denied'')"
    by (simp add: object1_def fs_of_def client_update_def)
  have u2: "update_reply (srv (fs (object1 (client_update (Inr file_node)))))
              (calls world1) (Path (nodes world1 1)) [(''modified'', TimeValue 42)]
            = Inr file_node"
    by (simp add: object1_def fs_of_def client_update_def)
  from SetModTime_frame [OF b(1), of "client_update (Inl (ErrorOther ''denied''))" world1 42] u1
  have c1: "fst (SetModTime (object1 (client_update (Inl (ErrorOther ''denied'')))) 42 world1)
              = Returns (Some (ErrorOther ''denied''))
            \<and> nodes (snd (SetModTime (object1 (client_update (Inl (ErrorOther ''denied''))))
                            42 world1)) = nodes world1"
    by blast
  from SetModTime_frame [OF b(1), of "client_update (Inr file_node)" world1 42] u2
  have c2: "fst (SetModTime (object1 (client_update (Inr file_node))) 42 world1) = Returns None
            \<and> nodes (snd (SetModTime (object1 (client_update (Inr file_node))) 42 world1))
                = (nodes world1)(1 := (nodes world1 1)\<lparr>Modified := 42\<rparr>)"
    by blast
  from c1 c2 b(2) show ?thesis by simp
qed

end
